theory Spec2Isabelle
  imports
    Complex_Main
    "HOL-Library.List_Lexorder"
    "HOL-Library.Char_ord"
    "HOL-Library.Product_Lexorder"
begin

section \<open>Sales analytics pipeline: the data model\<close>

text \<open>
  The source is one notebook script, \<^verbatim>\<open>Sales_Analytics_Pipeline.py\<close>, built on pandas.
  A DataFrame is modelled row-wise, as a list of records with the schema's columns; a
  missing cell (None, NaN) is \<open>None\<close>, a missing date (None, NaT) is \<open>NoDate\<close>, so
  every column can hold a missing value. float64 amounts are exact
  rationals: every statement below is about exact decimal arithmetic, not about binary
  floating-point rounding. Strings are byte strings ordered by character code, as
  Python orders ASCII strings.
\<close>

record timestamp =
  ts_year :: nat
  ts_month :: nat
  ts_day :: nat
  ts_hour :: nat
  ts_minute :: nat
  ts_second :: nat

text \<open>
  The \<^verbatim>\<open>transaction_date\<close> column holds strings when the batch is built (line 73) and
  datetime64 values once line 137 has converted it.
\<close>

datatype date_cell = NoDate | DateStr string | Timestamp timestamp

record transaction =
  transaction_id :: "string option"
  product_id :: "string option"
  product_name :: "string option"
  category :: "string option"
  quantity :: "int option"
  unit_price :: "rat option"
  total_amount :: "rat option"
  transaction_date :: date_cell
  customer_id :: "string option"
  sales_channel :: "string option"
  payment_method :: "string option"
  region :: "string option"

record quality_report =
  total_records :: nat
  issues_found :: "string list"
  data_health_score :: int

section \<open>Step 2: data quality validation\<close>

text \<open>Python's \<^verbatim>\<open>str\<close> of a non-negative integer, as the f-strings of the report use it.\<close>

fun str_nat :: "nat \<Rightarrow> string" where
  "str_nat n =
     (if n < 10 then [''0123456789'' ! n]
      else str_nat (n div 10) @ [''0123456789'' ! (n mod 10)])"

declare str_nat.simps [simp del]

text \<open>\<^verbatim>\<open>Series.isnull().sum()\<close>: the number of missing cells of a column.\<close>

definition isnull_sum :: "('r \<Rightarrow> 'a option) \<Rightarrow> 'r list \<Rightarrow> nat" where
  "isnull_sum col df = length (filter (\<lambda>r. col r = None) df)"

definition isnull_date_sum :: "('a transaction_scheme) list \<Rightarrow> nat" where
  "isnull_date_sum df = length (filter (\<lambda>r. transaction_date r = NoDate) df)"

text \<open>\<^verbatim>\<open>df.isnull().sum()\<close>: one count for each of the twelve columns, in column order.\<close>

definition missing_data :: "transaction list \<Rightarrow> nat list" where
  "missing_data df =
     [isnull_sum transaction_id df, isnull_sum product_id df, isnull_sum product_name df,
      isnull_sum category df, isnull_sum quantity df, isnull_sum unit_price df,
      isnull_sum total_amount df, isnull_date_sum df, isnull_sum customer_id df,
      isnull_sum sales_channel df, isnull_sum payment_method df, isnull_sum region df]"

text \<open>
  \<^verbatim>\<open>Series.duplicated()\<close> with the default \<^verbatim>\<open>keep='first'\<close>: a cell is flagged when an
  equal cell stands earlier in the column; missing cells count as equal to each other.
\<close>

fun duplicated_from :: "'a list \<Rightarrow> 'a list \<Rightarrow> bool list" where
  "duplicated_from seen [] = []"
| "duplicated_from seen (x # xs) = (x \<in> set seen) # duplicated_from (x # seen) xs"

definition duplicated :: "'a list \<Rightarrow> bool list" where
  "duplicated xs = duplicated_from [] xs"

text \<open>\<^verbatim>\<open>.sum()\<close> of a boolean column: the number of True cells.\<close>

definition bool_sum :: "bool list \<Rightarrow> nat" where
  "bool_sum bs = length (filter (\<lambda>b. b) bs)"

text \<open>\<^verbatim>\<open>df['unit_price'] <= 0\<close>: a comparison with NaN is False.\<close>

definition price_le_zero :: "rat option \<Rightarrow> bool" where
  "price_le_zero p = (case p of None \<Rightarrow> False | Some v \<Rightarrow> v \<le> 0)"

definition validate_data_quality :: "transaction list \<Rightarrow> quality_report" where
  "validate_data_quality df =
     (let quality_report0 =
            \<lparr>total_records = length df, issues_found = [], data_health_score = 100\<rparr>;
          missing = sum_list (missing_data df);
          quality_report1 =
            (if missing > 0
             then quality_report0
                    \<lparr>issues_found := issues_found quality_report0
                         @ [''Missing values: '' @ str_nat missing],
                     data_health_score := data_health_score quality_report0 - 10\<rparr>
             else quality_report0);
          duplicates = bool_sum (duplicated (map transaction_id df));
          quality_report2 =
            (if duplicates > 0
             then quality_report1
                    \<lparr>issues_found := issues_found quality_report1
                         @ [''Duplicate IDs: '' @ str_nat duplicates],
                     data_health_score := data_health_score quality_report1 - 15\<rparr>
             else quality_report1);
          negative_prices = bool_sum (map (\<lambda>r. price_le_zero (unit_price r)) df);
          quality_report3 =
            (if negative_prices > 0
             then quality_report2
                    \<lparr>issues_found := issues_found quality_report2
                         @ [''Invalid prices: '' @ str_nat negative_prices],
                     data_health_score := data_health_score quality_report2 - 20\<rparr>
             else quality_report2)
      in quality_report3)"

text \<open>
  The three issue categories in the spec's words: some cell of some record is missing;
  two records carry the same transaction id; some record has a unit price that is zero
  or negative.
\<close>

definition row_has_missing :: "transaction \<Rightarrow> bool" where
  "row_has_missing r \<longleftrightarrow>
     transaction_id r = None \<or> product_id r = None \<or> product_name r = None \<or>
     category r = None \<or> quantity r = None \<or> unit_price r = None \<or>
     total_amount r = None \<or> transaction_date r = NoDate \<or> customer_id r = None \<or>
     sales_channel r = None \<or> payment_method r = None \<or> region r = None"

definition any_missing :: "transaction list \<Rightarrow> bool" where
  "any_missing df = list_ex row_has_missing df"

definition any_duplicate_id :: "transaction list \<Rightarrow> bool" where
  "any_duplicate_id df = (\<not> distinct (map transaction_id df))"

definition any_nonpositive_price :: "transaction list \<Rightarrow> bool" where
  "any_nonpositive_price df = list_ex (\<lambda>r. price_le_zero (unit_price r)) df"

definition penalty :: "bool \<Rightarrow> int \<Rightarrow> int" where
  "penalty triggered p = (if triggered then p else 0)"

section \<open>Step 3: transformation\<close>

text \<open>
  The exceptions the modelled computations can raise. Both are \<^verbatim>\<open>ValueError\<close>s in
  pandas: an unparseable date string in \<^verbatim>\<open>pd.to_datetime\<close>, and \<^verbatim>\<open>idxmax\<close> of an
  empty Series ("attempt to get argmax of an empty sequence").
\<close>

datatype error = DateParseError string | ArgmaxOfEmpty

subsection \<open>Parsing and calendar fields\<close>

text \<open>
  \<^verbatim>\<open>pd.to_datetime\<close> is library code. It is modelled for the format the batch is written
  in (line 73, \<^verbatim>\<open>%Y-%m-%d %H:%M:%S\<close>); any other string counts as unparseable, and the
  range limits of datetime64 are left out.
\<close>

definition digit_of :: "char \<Rightarrow> nat option" where
  "digit_of c =
     (let n = of_char c :: nat in if 48 \<le> n \<and> n \<le> 57 then Some (n - 48) else None)"

definition number_of :: "string \<Rightarrow> nat option" where
  "number_of s =
     fold (\<lambda>c acc. case acc of None \<Rightarrow> None
                     | Some a \<Rightarrow> (case digit_of c of None \<Rightarrow> None
                                 | Some d \<Rightarrow> Some (10 * a + d)))
       s (Some 0)"

definition leap_year :: "nat \<Rightarrow> bool" where
  "leap_year y \<longleftrightarrow> (y mod 4 = 0 \<and> y mod 100 \<noteq> 0) \<or> y mod 400 = 0"

definition days_in_month :: "nat \<Rightarrow> nat \<Rightarrow> nat" where
  "days_in_month y m =
     (if m = 2 then (if leap_year y then 29 else 28)
      else if m = 4 \<or> m = 6 \<or> m = 9 \<or> m = 11 then 30 else 31)"

definition strptime :: "string \<Rightarrow> timestamp option" where
  "strptime s =
     (if length s = 19 \<and> s ! 4 = CHR ''-'' \<and> s ! 7 = CHR ''-'' \<and> s ! 10 = CHR '' ''
         \<and> s ! 13 = CHR '':'' \<and> s ! 16 = CHR '':''
      then
        (case (number_of (take 4 s), number_of (take 2 (drop 5 s)),
               number_of (take 2 (drop 8 s)), number_of (take 2 (drop 11 s)),
               number_of (take 2 (drop 14 s)), number_of (take 2 (drop 17 s))) of
           (Some y, Some m, Some d, Some h, Some mi, Some se) \<Rightarrow>
             if 1 \<le> y \<and> 1 \<le> m \<and> m \<le> 12 \<and> 1 \<le> d \<and> d \<le> days_in_month y m
                \<and> h < 24 \<and> mi < 60 \<and> se < 60
             then Some \<lparr>ts_year = y, ts_month = m, ts_day = d, ts_hour = h,
                        ts_minute = mi, ts_second = se\<rparr>
             else None
         | _ \<Rightarrow> None)
      else None)"

text \<open>
  One cell of \<^verbatim>\<open>pd.to_datetime\<close>: a missing cell becomes NaT, a string is parsed or
  raises, a value that is a timestamp already stays as it is.
\<close>

fun to_datetime_cell :: "date_cell \<Rightarrow> error + date_cell" where
  "to_datetime_cell NoDate = Inr NoDate"
| "to_datetime_cell (DateStr s) =
     (case strptime s of None \<Rightarrow> Inl (DateParseError s) | Some t \<Rightarrow> Inr (Timestamp t))"
| "to_datetime_cell (Timestamp t) = Inr (Timestamp t)"

fun to_datetime :: "date_cell list \<Rightarrow> error + date_cell list" where
  "to_datetime [] = Inr []"
| "to_datetime (c # cs) =
     (case to_datetime_cell c of
        Inl e \<Rightarrow> Inl e
      | Inr c' \<Rightarrow> (case to_datetime cs of Inl e \<Rightarrow> Inl e | Inr cs' \<Rightarrow> Inr (c' # cs')))"

text \<open>
  The \<^verbatim>\<open>.dt\<close> accessors: NaT gives NaN. They are applied to the converted column only,
  which holds no string (see \<open>to_datetime_no_string\<close>).
\<close>

fun dt :: "(timestamp \<Rightarrow> 'a) \<Rightarrow> date_cell \<Rightarrow> 'a option" where
  "dt f (Timestamp t) = Some (f t)"
| "dt f NoDate = None"
| "dt f (DateStr s) = None"

text \<open>The day of the week, Monday = 0, by Sakamoto's method on the Gregorian calendar.\<close>

definition weekday :: "timestamp \<Rightarrow> nat" where
  "weekday t =
     (let y = (if ts_month t < 3 then ts_year t - 1 else ts_year t);
          k = [0, 3, 2, 5, 0, 3, 5, 1, 4, 6, 2, 4] ! ((ts_month t - 1) mod 12)
      in (y + y div 4 - y div 100 + y div 400 + k + ts_day t + 6) mod 7)"

definition day_name :: "timestamp \<Rightarrow> string" where
  "day_name t =
     [''Monday'', ''Tuesday'', ''Wednesday'', ''Thursday'', ''Friday'', ''Saturday'',
      ''Sunday''] ! weekday t"

subsection \<open>Revenue buckets\<close>

text \<open>
  \<^verbatim>\<open>pd.cut(x, bins, labels)\<close> with the defaults \<^verbatim>\<open>right=True\<close>,
  \<^verbatim>\<open>include_lowest=False\<close>: bin \<open>i\<close> is the interval \<open>(bins[i], bins[i+1]]\<close>; a value in no
  bin, or a missing value, gets no label (NaN). The last edge of the source is
  \<^verbatim>\<open>float('inf')\<close>.
\<close>

datatype edge = Fin rat | PosInf

fun above_edge :: "edge \<Rightarrow> rat \<Rightarrow> bool" where
  "above_edge (Fin a) x = (a < x)"
| "above_edge PosInf x = False"

fun upto_edge :: "rat \<Rightarrow> edge \<Rightarrow> bool" where
  "upto_edge x (Fin b) = (x \<le> b)"
| "upto_edge x PosInf = True"

fun cut :: "edge list \<Rightarrow> string list \<Rightarrow> rat \<Rightarrow> string option" where
  "cut (lo # hi # bins) (l # labels) x =
     (if above_edge lo x \<and> upto_edge x hi then Some l else cut (hi # bins) labels x)"
| "cut bins labels x = None"

definition revenue_bins :: "edge list" where
  "revenue_bins = [Fin 0, Fin 100, Fin 500, Fin 1000, PosInf]"

definition revenue_labels :: "string list" where
  "revenue_labels = [''Low'', ''Medium'', ''High'', ''Premium'']"

definition cut_revenue :: "rat option \<Rightarrow> string option" where
  "cut_revenue a = (case a of None \<Rightarrow> None | Some x \<Rightarrow> cut revenue_bins revenue_labels x)"

subsection \<open>The enriched table\<close>

record enriched = transaction +
  year :: "nat option"
  month :: "nat option"
  day :: "nat option"
  hour :: "nat option"
  day_of_week :: "string option"
  revenue_category :: "string option"


text \<open>Lines 140 to 152: a copy of the row with the six derived columns.\<close>

definition enrich :: "transaction \<Rightarrow> enriched" where
  "enrich r =
     transaction.extend r
       (enriched.fields
          (dt ts_year (transaction_date r))
          (dt ts_month (transaction_date r))
          (dt ts_day (transaction_date r))
          (dt ts_hour (transaction_date r))
          (dt day_name (transaction_date r))
          (cut_revenue (total_amount r)))"

subsection \<open>Group-by and the aggregations\<close>

text \<open>
  \<^verbatim>\<open>groupby(key)\<close> with the defaults \<^verbatim>\<open>sort=True\<close>, \<^verbatim>\<open>dropna=True\<close>: one group for each
  distinct key that is not missing, the groups in ascending key order, the rows of a
  group in their order in the table.
\<close>

definition col_values :: "('r \<Rightarrow> 'a option) \<Rightarrow> 'r list \<Rightarrow> 'a list" where
  "col_values col df = List.map_filter col df"

definition group_keys :: "('r \<Rightarrow> ('k :: linorder) option) \<Rightarrow> 'r list \<Rightarrow> 'k list" where
  "group_keys key df = sort (remdups (col_values key df))"

definition groupby :: "('r \<Rightarrow> ('k :: linorder) option) \<Rightarrow> 'r list \<Rightarrow> ('k \<times> 'r list) list" where
  "groupby key df = map (\<lambda>k. (k, filter (\<lambda>r. key r = Some k) df)) (group_keys key df)"

text \<open>
  \<^verbatim>\<open>sum\<close>, \<^verbatim>\<open>count\<close>, \<^verbatim>\<open>mean\<close> and \<^verbatim>\<open>nunique\<close> skip missing cells; the sum of no cell
  is 0, the mean of no cell is NaN (\<open>None\<close>).
\<close>

definition sum_col :: "('r \<Rightarrow> ('a :: comm_monoid_add) option) \<Rightarrow> 'r list \<Rightarrow> 'a" where
  "sum_col col df = sum_list (col_values col df)"

definition count_col :: "('r \<Rightarrow> 'a option) \<Rightarrow> 'r list \<Rightarrow> nat" where
  "count_col col df = length (col_values col df)"



definition ts_key :: "timestamp \<Rightarrow> nat \<times> nat \<times> nat \<times> nat \<times> nat \<times> nat" where
  "ts_key t = (ts_year t, ts_month t, ts_day t, ts_hour t, ts_minute t, ts_second t)"

definition max_ts :: "timestamp list \<Rightarrow> timestamp option" where
  "max_ts ts =
     (case ts of [] \<Rightarrow> None
      | t # rest \<Rightarrow> Some (fold (\<lambda>u m. if ts_key m < ts_key u then u else m) rest t))"

text \<open>
  \<^verbatim>\<open>.round(2)\<close>: numpy rounds \<open>x * 100\<close> to the nearest integer, a tie to the even one, and
  divides by 100.
\<close>

definition rint :: "rat \<Rightarrow> int" where
  "rint x =
     (let f = \<lfloor>x\<rfloor>; d = x - of_int f
      in if d < 1 / 2 then f else if 1 / 2 < d then f + 1
         else if even f then f else f + 1)"

definition round2 :: "rat \<Rightarrow> rat" where
  "round2 x = of_int (rint (x * 100)) / 100"


subsection \<open>Customer aggregates and segments\<close>

record customer_row =
  total_spent :: rat
  order_count :: nat
  last_purchase :: "timestamp option"
  avg_order_value :: "rat option"

record customer_agg = customer_row +
  segment :: string

definition categorize_customer :: "'a customer_row_scheme \<Rightarrow> string" where
  "categorize_customer row =
     (if total_spent row > 2000 \<and> order_count row > 10 then ''VIP''
      else if total_spent row > 1000 \<or> order_count row > 5 then ''Regular''
      else ''New'')"

text \<open>
  Lines 155 to 172 for one group. \<^verbatim>\<open>count\<close> counts the rows of the group whose
  \<^verbatim>\<open>total_amount\<close> is not missing. The quotient of line 161 is a float division:
  \<open>0.0 / 0\<close> is NaN and raises nothing.
\<close>

definition customer_of_group :: "'a enriched_scheme list \<Rightarrow> customer_agg" where
  "customer_of_group grp =
     (let spent = round2 (sum_col total_amount grp);
          orders = count_col total_amount grp;
          row = \<lparr>total_spent = spent, order_count = orders,
                 last_purchase = max_ts (col_values (\<lambda>r. dt id (transaction_date r)) grp),
                 avg_order_value =
                   (if orders = 0 then None else Some (round2 (spent / of_nat orders)))\<rparr>
      in customer_row.extend row (customer_agg.fields (categorize_customer row)))"

definition customer_stats :: "'a enriched_scheme list \<Rightarrow> (string \<times> customer_agg) list" where
  "customer_stats df_transformed =
     map (\<lambda>(k, grp). (k, customer_of_group grp)) (groupby customer_id df_transformed)"

section \<open>Step 4: business KPIs\<close>





text \<open>
  \<^verbatim>\<open>sort_values(ascending=False)\<close>: pandas reverses the rows, sorts them ascending and
  reverses the result. The sort is modelled as one that keeps rows of equal value in
  place, as \<open>sort_key\<close> does; numpy's default is such an insertion sort on tables of at
  most 16 rows, as all sorted tables of this pipeline are on the generated data, and
  promises nothing about equal rows beyond that.
\<close>

definition sort_values_desc :: "('r \<Rightarrow> rat) \<Rightarrow> 'r list \<Rightarrow> 'r list" where
  "sort_values_desc val rows = rev (sort_key val (rev rows))"








section \<open>Step 5: advanced analytics\<close>











section \<open>Step 6: summary tables\<close>






section \<open>The whole run\<close>




section \<open>Statements of the specification\<close>

text \<open>
  The revenue buckets in the spec's words: (0,100] is Low, (100,500] is Medium,
  (500,1000] is High, (1000,\<open>\<infinity>\<close>) is Premium.
\<close>

definition bucket_spec :: "rat \<Rightarrow> string option" where
  "bucket_spec x =
     (if 0 < x \<and> x \<le> 100 then Some ''Low''
      else if 100 < x \<and> x \<le> 500 then Some ''Medium''
      else if 500 < x \<and> x \<le> 1000 then Some ''High''
      else if 1000 < x then Some ''Premium''
      else None)"






section \<open>Example batches\<close>

text \<open>A clean record, used to build the example batches.\<close>

definition txn :: "string \<Rightarrow> string \<Rightarrow> string \<Rightarrow> int \<Rightarrow> rat \<Rightarrow> rat \<Rightarrow> date_cell \<Rightarrow> string
    \<Rightarrow> transaction" where
  "txn tid pname cat q up ta d cust =
     \<lparr>transaction_id = Some tid, product_id = Some ''P'', product_name = Some pname,
      category = Some cat, quantity = Some q, unit_price = Some up, total_amount = Some ta,
      transaction_date = d, customer_id = Some cust, sales_channel = Some ''Online'',
      payment_method = Some ''Cash'', region = Some ''North''\<rparr>"

text \<open>A cell of the date column after line 137: 15 January 2024 (a Monday), 10:30.\<close>

definition monday_1030 :: date_cell where
  "monday_1030 =
     Timestamp \<lparr>ts_year = 2024, ts_month = 1, ts_day = 15, ts_hour = 10, ts_minute = 30,
       ts_second = 0\<rparr>"

section \<open>Properties of the validator\<close>

lemma isnull_sum_pos: "0 < isnull_sum col df \<longleftrightarrow> (\<exists>r \<in> set df. col r = None)"
  by (simp add: isnull_sum_def length_greater_0_conv filter_empty_conv del: length_0_conv)

lemma isnull_date_sum_pos:
  "0 < isnull_date_sum df \<longleftrightarrow> (\<exists>r \<in> set df. transaction_date r = NoDate)"
  by (simp add: isnull_date_sum_def filter_empty_conv)

lemma sum_list_nat_pos: "0 < sum_list (ns :: nat list) \<longleftrightarrow> (\<exists>n \<in> set ns. 0 < n)"
  by (induction ns) auto

lemma missing_data_pos: "0 < sum_list (missing_data df) \<longleftrightarrow> any_missing df"
proof -
  have "0 < sum_list (missing_data df) \<longleftrightarrow> (\<exists>n \<in> set (missing_data df). 0 < n)"
    by (rule sum_list_nat_pos)
  then show ?thesis
    unfolding any_missing_def list_ex_iff row_has_missing_def
    by (auto simp: missing_data_def isnull_sum_pos isnull_date_sum_pos)
qed

lemma bool_sum_pos: "0 < bool_sum bs \<longleftrightarrow> True \<in> set bs"
  by (auto simp: bool_sum_def filter_empty_conv)

lemma duplicated_from_True:
  "True \<in> set (duplicated_from seen xs) \<longleftrightarrow> \<not> distinct xs \<or> set seen \<inter> set xs \<noteq> {}"
  by (induction xs arbitrary: seen) auto

lemma duplicates_pos: "0 < bool_sum (duplicated (map transaction_id df)) \<longleftrightarrow> any_duplicate_id df"
  by (simp add: bool_sum_pos duplicated_def duplicated_from_True any_duplicate_id_def)

lemma negative_prices_pos:
  "0 < bool_sum (map (\<lambda>r. price_le_zero (unit_price r)) df) \<longleftrightarrow> any_nonpositive_price df"
  by (auto simp: bool_sum_pos any_nonpositive_price_def list_ex_iff)

lemma health_score_eq:
  "data_health_score (validate_data_quality df) =
     100 - penalty (any_missing df) 10 - penalty (any_duplicate_id df) 15
         - penalty (any_nonpositive_price df) 20"
  by (simp add: validate_data_quality_def Let_def penalty_def
      missing_data_pos duplicates_pos negative_prices_pos)

text \<open>
  Claim C7. The health score is 100 minus 10 if any cell is missing, minus 15 if some
  transaction id occurs twice, minus 20 if some unit price is zero or negative. Each
  penalty depends only on whether its own category is triggered, never on the number
  of records affected nor on the other two checks.
\<close>

theorem health_score_penalties:
  "data_health_score (validate_data_quality df) =
     100 - penalty (any_missing df) 10 - penalty (any_duplicate_id df) 15
         - penalty (any_nonpositive_price df) 20"
  by (rule health_score_eq)

theorem health_score_penalties_witness:
  "data_health_score (validate_data_quality
      [txn ''T1'' ''Mouse'' ''Acc'' 1 (-5) (-5) (DateStr ''2024-01-15 10:30:00'') ''C1'',
       txn ''T1'' ''Mouse'' ''Acc'' 1 0 0 (DateStr ''2024-01-15 10:30:00'') ''C1'',
       (txn ''T1'' ''Mouse'' ''Acc'' 2 3 6 (DateStr ''2024-01-15 10:30:00'') ''C2'')
         \<lparr>region := None, category := None\<rparr>]) = 55"
  using health_score_penalties
    [of "[txn ''T1'' ''Mouse'' ''Acc'' 1 (-5) (-5) (DateStr ''2024-01-15 10:30:00'') ''C1'',
          txn ''T1'' ''Mouse'' ''Acc'' 1 0 0 (DateStr ''2024-01-15 10:30:00'') ''C1'',
          (txn ''T1'' ''Mouse'' ''Acc'' 2 3 6 (DateStr ''2024-01-15 10:30:00'') ''C2'')
            \<lparr>region := None, category := None\<rparr>]"]
  by (simp add: penalty_def any_missing_def any_duplicate_id_def any_nonpositive_price_def
      row_has_missing_def price_le_zero_def txn_def)

text \<open>
  Claim C10. Whatever the batch, the health score is one of 100, 90, 85, 80, 75, 70, 65
  and 55; it is at least 55, so it never goes below zero.
\<close>

theorem health_score_range:
  "data_health_score (validate_data_quality df) \<in> {100, 90, 85, 80, 75, 70, 65, 55}
   \<and> 55 \<le> data_health_score (validate_data_quality df)"
  by (simp add: health_score_eq penalty_def)

theorem health_score_range_witness:
  "data_health_score (validate_data_quality
      [txn ''T1'' ''Mouse'' ''Acc'' 1 (-5) (-5) (DateStr ''2024-01-15 10:30:00'') ''C1'']) = 80"
proof -
  have "data_health_score (validate_data_quality
      [txn ''T1'' ''Mouse'' ''Acc'' 1 (-5) (-5) (DateStr ''2024-01-15 10:30:00'') ''C1''])
      \<notin> {100, 90, 85, 75, 70, 65, 55}"
    by (simp add: validate_data_quality_def missing_data_def isnull_sum_def
        isnull_date_sum_def duplicated_def bool_sum_def price_le_zero_def txn_def)
  with health_score_range
    [of "[txn ''T1'' ''Mouse'' ''Acc'' 1 (-5) (-5) (DateStr ''2024-01-15 10:30:00'') ''C1'']"]
  show ?thesis by simp
qed

section \<open>Properties of the transformation\<close>

lemma cut_revenue_Some: "cut_revenue (Some x) = bucket_spec x"
  by (simp add: cut_revenue_def revenue_bins_def revenue_labels_def bucket_spec_def)

lemma revenue_category_enrich: "revenue_category (enrich r) = cut_revenue (total_amount r)"
  by (simp add: enrich_def transaction.defs enriched.defs)

text \<open>
  Claim C4. For every enriched transaction, revenue_category is the bucket of
  total_amount with inclusive right edges: (0,100] is Low, (100,500] Medium, (500,1000]
  High, above 1000 Premium (a missing or non-positive amount gets no bucket). In
  particular 100 is Low, 100.01 is Medium and 1000000 is Premium.
\<close>

theorem revenue_category_buckets:
  "map revenue_category (map enrich df) =
     map (\<lambda>r. case total_amount r of None \<Rightarrow> None | Some x \<Rightarrow> bucket_spec x) df
   \<and> cut_revenue (Some 100) = Some ''Low''
   \<and> cut_revenue (Some (10001 / 100)) = Some ''Medium''
   \<and> cut_revenue (Some 1000000) = Some ''Premium''"
  by (simp add: revenue_category_enrich cut_revenue_Some bucket_spec_def split: option.split)
    (simp add: cut_revenue_def)

theorem revenue_category_buckets_witness:
  "map revenue_category
     (map enrich
        [txn ''T1'' ''Mouse'' ''Acc'' 1 100 100 monday_1030 ''C1'',
         txn ''T2'' ''Desk'' ''Home'' 1 (10001 / 100) (10001 / 100) monday_1030 ''C1'',
         txn ''T3'' ''Car'' ''Auto'' 1 1000000 1000000 monday_1030 ''C2''])
   = [Some ''Low'', Some ''Medium'', Some ''Premium'']"
  using revenue_category_buckets
    [of "[txn ''T1'' ''Mouse'' ''Acc'' 1 100 100 monday_1030 ''C1'',
          txn ''T2'' ''Desk'' ''Home'' 1 (10001 / 100) (10001 / 100) monday_1030 ''C1'',
          txn ''T3'' ''Car'' ''Auto'' 1 1000000 1000000 monday_1030 ''C2'']"]
  by (simp add: txn_def bucket_spec_def)

lemma segment_customer_of_group:
  "segment (customer_of_group grp) = categorize_customer (customer_of_group grp)"
  by (simp add: customer_of_group_def Let_def customer_row.defs customer_agg.defs
      categorize_customer_def)

text \<open>
  Claim C3. The segment is a function of total_spent and order_count alone, with the
  first matching rule winning: VIP iff total_spent > 2000 and order_count > 10; else
  Regular iff total_spent > 1000 or order_count > 5; else New. Every customer
  aggregate carries the segment so computed. (2001, 11) is VIP, (2000, 11) is Regular,
  (500, 1) is New.
\<close>

theorem categorize_customer_priority:
  "(categorize_customer row = ''VIP'' \<longleftrightarrow> total_spent row > 2000 \<and> order_count row > 10)
   \<and> (categorize_customer row = ''Regular'' \<longleftrightarrow>
        \<not> (total_spent row > 2000 \<and> order_count row > 10)
        \<and> (total_spent row > 1000 \<or> order_count row > 5))
   \<and> (categorize_customer row = ''New'' \<longleftrightarrow>
        \<not> (total_spent row > 2000 \<and> order_count row > 10)
        \<and> \<not> (total_spent row > 1000 \<or> order_count row > 5))
   \<and> categorize_customer row =
        categorize_customer \<lparr>total_spent = total_spent row, order_count = order_count row,
          last_purchase = None, avg_order_value = None\<rparr>
   \<and> map (\<lambda>(k, a). segment a) (customer_stats df) =
        map (\<lambda>(k, a). categorize_customer a) (customer_stats df)
   \<and> categorize_customer \<lparr>total_spent = 2001, order_count = 11, last_purchase = lp,
        avg_order_value = av\<rparr> = ''VIP''
   \<and> categorize_customer \<lparr>total_spent = 2000, order_count = 11, last_purchase = lp,
        avg_order_value = av\<rparr> = ''Regular''
   \<and> categorize_customer \<lparr>total_spent = 500, order_count = 1, last_purchase = lp,
        avg_order_value = av\<rparr> = ''New''"
  by (simp add: categorize_customer_def customer_stats_def segment_customer_of_group
      split_def)

theorem categorize_customer_priority_witness:
  "categorize_customer \<lparr>total_spent = 1500, order_count = 3, last_purchase = None,
      avg_order_value = Some 500\<rparr> = ''Regular''"
  using categorize_customer_priority
    [of "\<lparr>total_spent = 1500, order_count = 3, last_purchase = None,
           avg_order_value = Some 500\<rparr>" "[]" None None]
  by (simp add: customer_stats_def groupby_def group_keys_def col_values_def
      List.map_filter_simps)

section \<open>Properties of group-by and rounding\<close>

lemma col_values_Nil [simp]: "col_values col [] = []"
  by (simp add: col_values_def List.map_filter_simps)

lemma col_values_Cons:
  "col_values col (r # df) = (case col r of None \<Rightarrow> col_values col df | Some v \<Rightarrow> v # col_values col df)"
  by (simp add: col_values_def List.map_filter_simps split: option.split)

lemma set_col_values: "set (col_values col df) = {v. \<exists>r \<in> set df. col r = Some v}"
  by (induction df) (auto simp: col_values_Cons split: option.splits)

lemma set_group_keys: "set (group_keys key df) = {k. \<exists>r \<in> set df. key r = Some k}"
  by (simp add: group_keys_def set_col_values)


lemma sorted_group_keys: "sorted (group_keys key df)"
  by (simp add: group_keys_def)

lemma map_fst_groupby: "map fst (groupby key df) = group_keys key df"
  by (simp add: groupby_def comp_def)

lemma groupby_member:
  "(k, grp) \<in> set (groupby key df) \<longleftrightarrow>
     (\<exists>r \<in> set df. key r = Some k) \<and> grp = filter (\<lambda>r. key r = Some k) df"
  by (auto simp: groupby_def set_group_keys)

text \<open>Every group of a group-by has a member.\<close>

lemma groupby_nonempty: "(k, grp) \<in> set (groupby key df) \<Longrightarrow> grp \<noteq> []"
  by (auto simp: groupby_member filter_empty_conv)











section \<open>Properties of the customer aggregates\<close>

lemma customer_of_group_fields:
  "total_spent (customer_of_group grp) = round2 (sum_col total_amount grp)"
  "order_count (customer_of_group grp) = count_col total_amount grp"
  "avg_order_value (customer_of_group grp) =
     (if count_col total_amount grp = 0 then None
      else Some (round2 (round2 (sum_col total_amount grp)
                         / of_nat (count_col total_amount grp))))"
  by (simp_all add: customer_of_group_def Let_def customer_row.defs customer_agg.defs)

lemma customer_stats_member:
  "(k, a) \<in> set (customer_stats df) \<longleftrightarrow>
     (\<exists>r \<in> set df. customer_id r = Some k)
     \<and> a = customer_of_group (filter (\<lambda>r. customer_id r = Some k) df)"
proof -
  have "(k, a) \<in> set (customer_stats df) \<longleftrightarrow>
        (\<exists>grp. (k, grp) \<in> set (groupby customer_id df) \<and> a = customer_of_group grp)"
    by (auto simp: customer_stats_def)
  then show ?thesis by (simp add: groupby_member)
qed

lemma count_col_eq: "count_col col df = length (filter (\<lambda>r. col r \<noteq> None) df)"
  by (induction df) (auto simp: count_col_def col_values_Cons split: option.splits)


lemma enrich_base_fields:
  "customer_id (enrich r) = customer_id r"
  "total_amount (enrich r) = total_amount r"
  "transaction_date (enrich r) = transaction_date r"
  "product_name (enrich r) = product_name r"
  "quantity (enrich r) = quantity r"
  by (simp_all add: enrich_def transaction.defs enriched.defs)

lemma round2_examples: "round2 (1 / 250) = 0" "round2 0 = 0"
  by code_simp+





text \<open>
  Claim C9, as stated, fails: order_count is pandas' count, the number of records of the
  group whose total_amount is not missing. A customer whose only record lacks its
  total_amount has order_count 0, and the quotient is 0.0 / 0, that is NaN.
\<close>

theorem order_count_counterexample:
  "map (\<lambda>(k, a). (k, total_spent a, order_count a, avg_order_value a))
     (customer_stats (map enrich
        [(txn ''T1'' ''Mouse'' ''Acc'' 1 5 5 monday_1030 ''C1'')\<lparr>total_amount := None\<rparr>]))
   = [(''C1'', 0, 0, None)]"
  by (simp add: customer_stats_def groupby_def group_keys_def col_values_Cons
      enrich_base_fields customer_of_group_fields sum_col_def count_col_def txn_def
      round2_examples)

text \<open>
  Claim C9, amended. For the aggregate of customer k, order_count is the number of k's
  records that have a total_amount, and avg_order_value is total_spent / order_count
  rounded to 2 decimals when order_count > 0, and NaN when order_count = 0; no
  exception is raised in either case. If none of k's records lacks its total_amount
  then order_count > 0, since a group has at least one member.
\<close>

theorem order_count_of_group:
  assumes "(k, a) \<in> set (customer_stats df)"
  shows "order_count a =
           length (filter (\<lambda>r. customer_id r = Some k \<and> total_amount r \<noteq> None) df)
         \<and> avg_order_value a =
             (if order_count a = 0 then None
              else Some (round2 (total_spent a / of_nat (order_count a))))
         \<and> ((\<forall>r \<in> set df. customer_id r = Some k \<longrightarrow> total_amount r \<noteq> None)
              \<longrightarrow> 0 < order_count a)"
proof -
  from assms obtain r0 where r0: "r0 \<in> set df" "customer_id r0 = Some k"
    and a: "a = customer_of_group (filter (\<lambda>r. customer_id r = Some k) df)"
    by (auto simp: customer_stats_member)
  have cnt: "order_count a =
      length (filter (\<lambda>r. customer_id r = Some k \<and> total_amount r \<noteq> None) df)"
    by (simp add: a customer_of_group_fields count_col_eq conj_commute)
  have avg: "avg_order_value a =
      (if order_count a = 0 then None
       else Some (round2 (total_spent a / of_nat (order_count a))))"
    by (simp add: a customer_of_group_fields)
  have "0 < order_count a"
    if "\<forall>r \<in> set df. customer_id r = Some k \<longrightarrow> total_amount r \<noteq> None"
  proof -
    from r0 that have "r0 \<in> set (filter (\<lambda>r. customer_id r = Some k \<and> total_amount r \<noteq> None) df)"
      by simp
    then show ?thesis unfolding cnt by (metis length_pos_if_in_set)
  qed
  with cnt avg show ?thesis by blast
qed

theorem order_count_of_group_witness:
  "0 < order_count (customer_of_group (filter (\<lambda>r. customer_id r = Some ''C1'') (map enrich
        [txn ''T1'' ''Mouse'' ''Acc'' 1 (21 / 2) (21 / 2) monday_1030 ''C1'',
         txn ''T2'' ''Desk'' ''Home'' 1 (81 / 4) (81 / 4) monday_1030 ''C2''])))"
proof -
  let ?df = "map enrich
        [txn ''T1'' ''Mouse'' ''Acc'' 1 (21 / 2) (21 / 2) monday_1030 ''C1'',
         txn ''T2'' ''Desk'' ''Home'' 1 (81 / 4) (81 / 4) monday_1030 ''C2'']"
  let ?a = "customer_of_group (filter (\<lambda>r. customer_id r = Some ''C1'') ?df)"
  have mem: "(''C1'', ?a) \<in> set (customer_stats ?df)"
    unfolding customer_stats_member by (simp add: enrich_base_fields txn_def)
  have "\<forall>r \<in> set ?df. customer_id r = Some ''C1'' \<longrightarrow> total_amount r \<noteq> None"
    by (simp add: enrich_base_fields txn_def del: not_None_eq)
  with order_count_of_group [OF mem] show ?thesis by blast
qed

section \<open>Properties of the whole run\<close>



lemma to_datetime_cells:
  "to_datetime cs = Inr cs' \<longleftrightarrow> list_all2 (\<lambda>c c'. to_datetime_cell c = Inr c') cs cs'"
proof (induction cs arbitrary: cs')
  case Nil
  then show ?case by auto
next
  case (Cons c cs)
  show ?case
  proof (cases "to_datetime_cell c")
    case (Inl e)
    then show ?thesis by (auto simp: list_all2_Cons1)
  next
    case (Inr d)
    then show ?thesis
      using Cons.IH by (cases "to_datetime cs") (auto simp: list_all2_Cons1)
  qed
qed

text \<open>The converted column holds no string.\<close>

lemma to_datetime_no_string:
  "to_datetime cs = Inr cs' \<Longrightarrow> DateStr s \<notin> set cs'"
proof -
  assume "to_datetime cs = Inr cs'"
  then have "list_all2 (\<lambda>c c'. to_datetime_cell c = Inr c') cs cs'"
    by (simp add: to_datetime_cells)
  then have "\<forall>c' \<in> set cs'. \<exists>c. to_datetime_cell c = Inr c'"
    by (induction rule: list_all2_induct) auto
  moreover have "to_datetime_cell c \<noteq> Inr (DateStr s)" for c
    by (cases c) (auto split: option.splits)
  ultimately show ?thesis by blast
qed











lemma groupby_Nil [simp]: "groupby key [] = []"
  by (simp add: groupby_def group_keys_def)











section \<open>Properties of the product table\<close>




lemma set_sort_values_desc [simp]: "set (sort_values_desc val rows) = set rows"
  by (simp add: sort_values_desc_def)

lemma length_sort_values_desc [simp]: "length (sort_values_desc val rows) = length rows"
  by (simp add: sort_values_desc_def)










end
